theory Spec2Isabelle
  imports Main "HOL-Library.Word" "HOL-Library.Sublist"
begin

unbundle bit_operations_syntax

section \<open>The N-API bridge of \<^verbatim>\<open>src/bun.js/bindings/napi.h\<close>\<close>

text \<open>
  The header declares the per-module environment \<^verbatim>\<open>napi_env__\<close>, the two casts
  \<^verbatim>\<open>toJS\<close> and \<^verbatim>\<open>toNapi\<close> between managed values and opaque handles, the tagged weak
  slot \<^verbatim>\<open>NapiWeakValue\<close> and the reference \<^verbatim>\<open>NapiRef\<close>. Member functions are
  modelled as functions on the object's state that return the result together with the
  updated state where the original mutates it. A call into foreign code (a finalizer) is
  recorded as a value in a list of calls, in the order the calls are made.
\<close>

subsection \<open>Pointers and status codes\<close>

text \<open>
  Pointers are 64-bit addresses; \<^verbatim>\<open>nullptr\<close> is address 0. A C string
  (\<^verbatim>\<open>const char*\<close>) is \<open>None\<close> when null and \<open>Some\<close> of its characters otherwise.
\<close>

type_synonym ptr = "64 word"

definition nullptr :: ptr where
  "nullptr = 0"

text \<open>
  \<^verbatim>\<open>napi_status\<close> is a C enumeration, declared in \<^verbatim>\<open>node_api.h\<close>; a variable of that
  type can hold integers that name no enumerator, which is why \<^verbatim>\<open>getLastErrorInfo\<close>
  checks the range. It is modelled by its integer value. The header fixes the two
  enumerators it uses: the first table entry is commented \<^verbatim>\<open>napi_ok\<close> (value 0), and the
  \<^verbatim>\<open>static_assert\<close> equates the table's 22 entries with \<^verbatim>\<open>napi_would_deadlock + 1\<close>.
\<close>

type_synonym napi_status = int

definition napi_ok :: napi_status where
  "napi_ok = 0"

definition napi_would_deadlock :: napi_status where
  "napi_would_deadlock = 21"

record napi_extended_error_info =
  error_message :: "string option"
  engine_reserved :: ptr
  engine_error_code :: "32 word"
  error_code :: napi_status

subsection \<open>The environment \<^verbatim>\<open>napi_env__\<close>\<close>

text \<open>
  The module descriptor \<^verbatim>\<open>napi_module\<close> is held by value and never inspected by the
  header; its type is left as the parameter \<open>'m\<close>.
\<close>

record 'm napi_env__ =
  m_globalObject :: ptr
  m_napiModule :: 'm
  m_instanceData :: ptr
  m_instanceDataFinalizer :: ptr
  m_instanceDataFinalizerHint :: ptr
  m_extendedErrorInfo :: napi_extended_error_info

text \<open>The constructor with the default member initialisers of lines 106 to 119.\<close>

definition napi_env_ctor :: "ptr \<Rightarrow> 'm \<Rightarrow> 'm napi_env__" where
  "napi_env_ctor globalObject napiModule =
     \<lparr> m_globalObject = globalObject,
       m_napiModule = napiModule,
       m_instanceData = nullptr,
       m_instanceDataFinalizer = nullptr,
       m_instanceDataFinalizerHint = nullptr,
       m_extendedErrorInfo =
         \<lparr> error_message = Some '''',
           engine_reserved = nullptr,
           engine_error_code = 0,
           error_code = napi_ok \<rparr> \<rparr>"

text \<open>
  One invocation \<^verbatim>\<open>cb(env, data, hint)\<close> of a \<^verbatim>\<open>napi_finalize\<close> callback: the
  callback's address, the data pointer and the hint. The first argument is always the
  environment that makes the call.
\<close>

datatype finalize_call = Finalize (cb: ptr) (cb_data: ptr) (cb_hint: ptr)

text \<open>
  \<^verbatim>\<open>cleanup()\<close> (lines 36 to 41) calls the finalizer when the pointer is not null. It
  writes to no member.
\<close>

definition cleanup :: "'m napi_env__ \<Rightarrow> finalize_call list \<times> 'm napi_env__" where
  "cleanup e =
     (if m_instanceDataFinalizer e \<noteq> nullptr
      then ([Finalize (m_instanceDataFinalizer e) (m_instanceData e) (m_instanceDataFinalizerHint e)], e)
      else ([], e))"

definition setInstanceData :: "ptr \<Rightarrow> ptr \<Rightarrow> ptr \<Rightarrow> 'm napi_env__ \<Rightarrow> 'm napi_env__" where
  "setInstanceData d finalizer hint e =
     e\<lparr> m_instanceData := d,
        m_instanceDataFinalizer := finalizer,
        m_instanceDataFinalizerHint := hint \<rparr>"

definition getInstanceData :: "'m napi_env__ \<Rightarrow> ptr" where
  "getInstanceData e = m_instanceData e"

definition setLastError :: "napi_status \<Rightarrow> 'm napi_env__ \<Rightarrow> napi_status \<times> 'm napi_env__" where
  "setLastError status e =
     (status, e\<lparr> m_extendedErrorInfo := (m_extendedErrorInfo e)\<lparr> error_code := status \<rparr> \<rparr>)"

definition last_status :: napi_status where
  "last_status = napi_would_deadlock"

definition error_messages :: "string option list" where
  "error_messages =
     [ None,
       Some ''Invalid argument'',
       Some ''An object was expected'',
       Some ''A string was expected'',
       Some ''A string or symbol was expected'',
       Some ''A function was expected'',
       Some ''A number was expected'',
       Some ''A boolean was expected'',
       Some ''An array was expected'',
       Some ''Unknown failure'',
       Some ''An exception is pending'',
       Some ''The async work item was cancelled'',
       Some ''napi_escape_handle already called on scope'',
       Some ''Invalid handle scope usage'',
       Some ''Invalid callback scope usage'',
       Some ''Thread-safe function queue is full'',
       Some ''Thread-safe function handle is closing'',
       Some ''A bigint was expected'',
       Some ''A date was expected'',
       Some ''An arraybuffer was expected'',
       Some ''A detachable arraybuffer was expected'',
       Some ''Main thread would deadlock'' ]"

text \<open>
  \<^verbatim>\<open>getLastErrorInfo()\<close> (lines 63 to 103) stores the message for the current code in
  the record and returns the record.
\<close>

definition getLastErrorInfo :: "'m napi_env__ \<Rightarrow> napi_extended_error_info \<times> 'm napi_env__" where
  "getLastErrorInfo e =
     (let status = error_code (m_extendedErrorInfo e);
          e' = (if status \<ge> 0 \<and> status \<le> last_status
                then e\<lparr> m_extendedErrorInfo :=
                         (m_extendedErrorInfo e)\<lparr> error_message := error_messages ! nat status \<rparr> \<rparr>
                else e\<lparr> m_extendedErrorInfo :=
                         (m_extendedErrorInfo e)\<lparr> error_message := None \<rparr> \<rparr>)
      in (m_extendedErrorInfo e', e'))"

text \<open>
  A sequence of calls made on one environment, run in order; the finalizer calls that
  \<^verbatim>\<open>cleanup()\<close> makes are collected in the order they happen.
\<close>

datatype env_call = Cleanup | SetInstanceData ptr ptr ptr | SetLastError napi_status | GetLastErrorInfo

fun env_step :: "env_call \<Rightarrow> 'm napi_env__ \<Rightarrow> finalize_call list \<times> 'm napi_env__" where
  "env_step Cleanup e = cleanup e"
| "env_step (SetInstanceData d f h) e = ([], setInstanceData d f h e)"
| "env_step (SetLastError s) e = ([], snd (setLastError s e))"
| "env_step GetLastErrorInfo e = ([], snd (getLastErrorInfo e))"

fun env_run :: "env_call list \<Rightarrow> 'm napi_env__ \<Rightarrow> finalize_call list \<times> 'm napi_env__" where
  "env_run [] e = ([], e)"
| "env_run (c # cs) e =
     (let (fs, e') = env_step c e; (gs, e'') = env_run cs e' in (fs @ gs, e''))"

subsection \<open>Managed values and opaque handles\<close>

text \<open>
  Modelled from the spec: \<^verbatim>\<open>JSC::JSValue\<close>, \<^verbatim>\<open>JSC::EncodedJSValue\<close> and
  \<^verbatim>\<open>JSValue::isCell\<close> belong to the managed heap (JavaScriptCore), which the header
  includes and which is not among the sources. The spec lists what the core consumes from
  it: representing a value, and reporting whether a value is a heap cell or a primitive.
  The representation taken here is the one of 64-bit targets, where a value is one
  64-bit word, \<^verbatim>\<open>encode\<close> and \<^verbatim>\<open>decode\<close> expose and wrap that word, the default
  \<^verbatim>\<open>JSValue()\<close> is the all-zero empty value, a cell pointer is stored as its address,
  and a value is a cell when it has none of the number and other-immediate tag bits.
  The handle \<^verbatim>\<open>napi_value\<close> is a pointer, so the \<^verbatim>\<open>reinterpret_cast\<close> between it and
  the encoded value keeps the 64 bits.
\<close>

datatype JSValue = JSValue (asInt64: "64 word")

type_synonym EncodedJSValue = "64 word"

type_synonym napi_value = ptr

definition JSValue_empty :: JSValue where
  "JSValue_empty = JSValue 0"

definition JSValue_of_cell :: "ptr \<Rightarrow> JSValue" where
  "JSValue_of_cell p = JSValue p"

definition JSValue_encode :: "JSValue \<Rightarrow> EncodedJSValue" where
  "JSValue_encode v = asInt64 v"

definition JSValue_decode :: "EncodedJSValue \<Rightarrow> JSValue" where
  "JSValue_decode w = JSValue w"

definition NotCellMask :: "64 word" where
  "NotCellMask = 0xfffe000000000002"

definition isCell :: "JSValue \<Rightarrow> bool" where
  "isCell v = (asInt64 v AND NotCellMask = 0)"

definition asCell :: "JSValue \<Rightarrow> ptr" where
  "asCell v = asInt64 v"

text \<open>
  Modelled from the spec: \<^verbatim>\<open>NapiHandleScopeImpl\<close> (\<^verbatim>\<open>napi_handle_scope.h\<close>) and the
  member \<^verbatim>\<open>m_currentNapiHandleScopeImpl\<close> of \<^verbatim>\<open>Zig::GlobalObject\<close>
  (\<^verbatim>\<open>ZigGlobalObject.h\<close>) are not among the sources. By the spec a handle scope has an
  ordered sequence of the values vended since it opened and a pointer to the enclosing
  scope; appending puts a value at the end of the sequence of that scope. The global
  object holds the innermost open scope, or null when no scope is open.
\<close>

datatype NapiHandleScopeImpl =
  NapiHandleScopeImpl (m_storage: "JSValue list") (m_parent: "NapiHandleScopeImpl option")

definition NapiHandleScopeImpl_append :: "JSValue \<Rightarrow> NapiHandleScopeImpl \<Rightarrow> NapiHandleScopeImpl" where
  "NapiHandleScopeImpl_append val scope =
     NapiHandleScopeImpl (m_storage scope @ [val]) (m_parent scope)"

record GlobalObject =
  m_currentNapiHandleScopeImpl :: "NapiHandleScopeImpl option"

text \<open>\<^verbatim>\<open>Zig::toJS(napi_value)\<close>, lines 126 to 129.\<close>

definition toJS :: "napi_value \<Rightarrow> JSValue" where
  "toJS val = JSValue_decode val"

text \<open>
  \<^verbatim>\<open>Zig::toNapi(JSValue, GlobalObject*)\<close>, lines 131 to 139: the handle, and the global
  object after the call.
\<close>

definition toNapi :: "JSValue \<Rightarrow> GlobalObject \<Rightarrow> napi_value \<times> GlobalObject" where
  "toNapi val globalObject =
     (let globalObject' =
            (if isCell val then
               (case m_currentNapiHandleScopeImpl globalObject of
                  Some scope \<Rightarrow>
                    globalObject\<lparr> m_currentNapiHandleScopeImpl :=
                                    Some (NapiHandleScopeImpl_append val scope) \<rparr>
                | None \<Rightarrow> globalObject)
             else globalObject)
      in (JSValue_encode val, globalObject'))"

subsection \<open>Strong and weak handles of the managed heap\<close>

text \<open>
  Modelled from the spec: \<^verbatim>\<open>JSC::Strong\<close> and \<^verbatim>\<open>JSC::Weak\<close> belong to the managed
  heap and are not among the sources. By the spec the heap can strongly retain a value
  until it is released, and weakly watch a heap value, with a read that gives the current
  value or the dead sentinel. A strong handle is an optional slot holding a value;
  \<^verbatim>\<open>get\<close> on a handle without a slot gives the empty value. A weak handle is the
  address its \<^verbatim>\<open>get\<close> returns: the target while it is observed and alive, null once it
  is cleared or the target is collected.
\<close>

datatype Strong = Strong (slot: "JSValue option")

definition Strong_get :: "Strong \<Rightarrow> JSValue" where
  "Strong_get s = (case slot s of Some v \<Rightarrow> v | None \<Rightarrow> JSValue_empty)"

definition Strong_set :: "JSValue \<Rightarrow> Strong \<Rightarrow> Strong" where
  "Strong_set v s = Strong (Some v)"

definition Strong_clear :: "Strong \<Rightarrow> Strong" where
  "Strong_clear s = Strong None"

datatype Weak = Weak (impl: ptr)

definition Weak_get :: "Weak \<Rightarrow> ptr" where
  "Weak_get w = impl w"

definition Weak_clear :: "Weak \<Rightarrow> Weak" where
  "Weak_clear w = Weak nullptr"

subsection \<open>The weak slot \<^verbatim>\<open>NapiWeakValue\<close>\<close>

datatype WeakTypeTag = NotSet | Primitive | Cell | String

text \<open>
  The union \<^verbatim>\<open>WeakValueUnion\<close> (lines 212 to 226). Its three members share storage in
  the original; the code reads only the member that \<^verbatim>\<open>m_tag\<close> selects. The model keeps
  one field per member, so a slot can hold a payload that its tag does not select.
\<close>

record WeakValueUnion =
  primitive :: JSValue
  cell :: Weak
  string :: Weak

record NapiWeakValue =
  m_tag :: WeakTypeTag
  m_value :: WeakValueUnion

text \<open>
  The default constructor: the tag starts as \<^verbatim>\<open>NotSet\<close> (line 210) and the union's
  constructor initialises the primitive member with \<^verbatim>\<open>JSValue()\<close> (line 214).
\<close>

definition NapiWeakValue_ctor :: NapiWeakValue where
  "NapiWeakValue_ctor =
     \<lparr> m_tag = NotSet,
       m_value = \<lparr> primitive = JSValue_empty, cell = Weak nullptr, string = Weak nullptr \<rparr> \<rparr>"

definition isSet :: "NapiWeakValue \<Rightarrow> bool" where
  "isSet w = (m_tag w \<noteq> NotSet)"

definition isPrimitive :: "NapiWeakValue \<Rightarrow> bool" where
  "isPrimitive w = (m_tag w = Primitive)"

text \<open>\<^verbatim>\<open>NapiWeakValue::get()\<close>, lines 172 to 184.\<close>

definition NapiWeakValue_get :: "NapiWeakValue \<Rightarrow> JSValue" where
  "NapiWeakValue_get w =
     (case m_tag w of
        Primitive \<Rightarrow> primitive (m_value w)
      | Cell \<Rightarrow> JSValue_of_cell (Weak_get (cell (m_value w)))
      | String \<Rightarrow> JSValue_of_cell (Weak_get (string (m_value w)))
      | NotSet \<Rightarrow> JSValue_empty)"

text \<open>
  Modelled from the spec: the bodies of \<^verbatim>\<open>NapiWeakValue::clear\<close>, \<^verbatim>\<open>setPrimitive\<close>,
  \<^verbatim>\<open>setCell\<close>, \<^verbatim>\<open>setString\<close> and \<^verbatim>\<open>set\<close> are declared in the header and defined in
  \<^verbatim>\<open>napi.cpp\<close>, which is not among the sources. By the spec, clearing deregisters a
  weak observation of a cell or string state and leaves the slot unset; setting first
  clears any prior state; \<^verbatim>\<open>setPrimitive\<close> stores the value inline; \<^verbatim>\<open>setCell\<close> and
  \<^verbatim>\<open>setString\<close> start a weak observation of the target; the generic \<^verbatim>\<open>set\<close> chooses
  among the three by the category of the value (primitive, string-like cell, other cell).
  Whether a cell is string-like is known to the managed heap only; it is the parameter
  \<open>isString\<close>.
\<close>

definition NapiWeakValue_clear :: "NapiWeakValue \<Rightarrow> NapiWeakValue" where
  "NapiWeakValue_clear w =
     \<lparr> m_tag = NotSet,
       m_value = \<lparr> primitive = JSValue_empty,
                   cell = Weak_clear (cell (m_value w)),
                   string = Weak_clear (string (m_value w)) \<rparr> \<rparr>"

definition setPrimitive :: "JSValue \<Rightarrow> NapiWeakValue \<Rightarrow> NapiWeakValue" where
  "setPrimitive v w =
     (let w0 = NapiWeakValue_clear w
      in w0\<lparr> m_tag := Primitive, m_value := (m_value w0)\<lparr> primitive := v \<rparr> \<rparr>)"

definition setCell :: "ptr \<Rightarrow> NapiWeakValue \<Rightarrow> NapiWeakValue" where
  "setCell p w =
     (let w0 = NapiWeakValue_clear w
      in w0\<lparr> m_tag := Cell, m_value := (m_value w0)\<lparr> cell := Weak p \<rparr> \<rparr>)"

definition setString :: "ptr \<Rightarrow> NapiWeakValue \<Rightarrow> NapiWeakValue" where
  "setString p w =
     (let w0 = NapiWeakValue_clear w
      in w0\<lparr> m_tag := String, m_value := (m_value w0)\<lparr> string := Weak p \<rparr> \<rparr>)"

definition NapiWeakValue_set :: "(JSValue \<Rightarrow> bool) \<Rightarrow> JSValue \<Rightarrow> NapiWeakValue \<Rightarrow> NapiWeakValue" where
  "NapiWeakValue_set isString v w =
     (if \<not> isCell v then setPrimitive v w
      else if isString v then setString (asCell v) w
      else setCell (asCell v) w)"

subsection \<open>The reference \<^verbatim>\<open>NapiRef\<close>\<close>

record NapiFinalizer =
  finalize_hint :: ptr
  finalize_cb :: ptr

record NapiRef =
  env :: ptr
  globalObject :: Weak
  weakValueRef :: NapiWeakValue
  strongRef :: Strong
  finalizer :: NapiFinalizer
  data :: ptr
  refCount :: "32 word"

text \<open>
  The constructor \<^verbatim>\<open>NapiRef(napi_env env, uint32_t count)\<close>, lines 237 to 242, with the
  default member initialisers of lines 261 to 267. \<open>env_globalObject\<close> is what
  \<^verbatim>\<open>env->globalObject()\<close> returns. The member \<^verbatim>\<open>finalize_cb\<close> of the finalizer has no
  initialiser (line 144); its indeterminate content is the argument \<open>cb0\<close>.
\<close>

definition NapiRef_ctor :: "ptr \<Rightarrow> ptr \<Rightarrow> 32 word \<Rightarrow> ptr \<Rightarrow> NapiRef" where
  "NapiRef_ctor e env_globalObject count cb0 =
     \<lparr> env = e,
       globalObject = Weak env_globalObject,
       weakValueRef = NapiWeakValue_ctor,
       strongRef = Strong None,
       finalizer = \<lparr> finalize_hint = nullptr, finalize_cb = cb0 \<rparr>,
       data = nullptr,
       refCount = count \<rparr>"

text \<open>\<^verbatim>\<open>NapiRef::value()\<close>, lines 244 to 251.\<close>

definition NapiRef_value :: "NapiRef \<Rightarrow> JSValue" where
  "NapiRef_value r =
     (if refCount r = 0 then NapiWeakValue_get (weakValueRef r)
      else Strong_get (strongRef r))"

text \<open>
  The destructor \<^verbatim>\<open>~NapiRef()\<close>, lines 253 to 259, as the list of its statements in
  the order they run, each with the state of the reference after it.
\<close>

datatype teardown = StrongRefClear | WeakValueRefClear

definition NapiRef_dtor :: "NapiRef \<Rightarrow> (teardown \<times> NapiRef) list" where
  "NapiRef_dtor r =
     (let r1 = r\<lparr> strongRef := Strong_clear (strongRef r) \<rparr>;
          r2 = r1\<lparr> weakValueRef := NapiWeakValue_clear (weakValueRef r1) \<rparr>
      in [(StrongRefClear, r1), (WeakValueRefClear, r2)])"

text \<open>
  Modelled from the spec: the bodies of \<^verbatim>\<open>NapiRef::ref\<close> and \<^verbatim>\<open>NapiRef::unref\<close> are
  declared in the header (lines 233 and 234) and defined in \<^verbatim>\<open>napi.cpp\<close>, which is not
  among the sources. By the spec, \<^verbatim>\<open>ref()\<close> increments the count and, if transitioning
  from 0, promotes the value from weak to strong storage, doing nothing to the storage
  if the weak slot already reports that the value is gone; \<^verbatim>\<open>unref()\<close> decrements the
  count and, if reaching 0, demotes from strong to weak storage, re-establishing weak
  tracking on the current value. The count is the \<^verbatim>\<open>uint32_t\<close> field of line 267, so
  both wrap around modulo \<open>2 ^ 32\<close>.
\<close>

definition NapiRef_ref :: "NapiRef \<Rightarrow> NapiRef" where
  "NapiRef_ref r =
     (let r1 = r\<lparr> refCount := refCount r + 1 \<rparr>
      in if refCount r = 0 \<and> NapiWeakValue_get (weakValueRef r) \<noteq> JSValue_empty
         then r1\<lparr> strongRef := Strong_set (NapiWeakValue_get (weakValueRef r)) (strongRef r),
                  weakValueRef := NapiWeakValue_clear (weakValueRef r) \<rparr>
         else r1)"

definition NapiRef_unref :: "(JSValue \<Rightarrow> bool) \<Rightarrow> NapiRef \<Rightarrow> NapiRef" where
  "NapiRef_unref isString r =
     (let r1 = r\<lparr> refCount := refCount r - 1 \<rparr>
      in if refCount r1 = 0
         then r1\<lparr> weakValueRef :=
                    NapiWeakValue_set isString (Strong_get (strongRef r)) (weakValueRef r),
                  strongRef := Strong_clear (strongRef r) \<rparr>
         else r1)"

text \<open>A sequence of \<^verbatim>\<open>ref()\<close> and \<^verbatim>\<open>unref()\<close> calls on one reference, run in order.\<close>

datatype ref_call = Ref | Unref

fun NapiRef_step :: "(JSValue \<Rightarrow> bool) \<Rightarrow> ref_call \<Rightarrow> NapiRef \<Rightarrow> NapiRef" where
  "NapiRef_step isString Ref r = NapiRef_ref r"
| "NapiRef_step isString Unref r = NapiRef_unref isString r"

fun NapiRef_run :: "(JSValue \<Rightarrow> bool) \<Rightarrow> ref_call list \<Rightarrow> NapiRef \<Rightarrow> NapiRef" where
  "NapiRef_run isString [] r = r"
| "NapiRef_run isString (c # cs) r = NapiRef_run isString cs (NapiRef_step isString c r)"

text \<open>
  The two conditions on a call sequence: at every prefix there are at most as many
  \<^verbatim>\<open>unref()\<close> as \<^verbatim>\<open>ref()\<close> calls; and at every prefix the count that started at \<open>c\<close>
  is still below \<open>2 ^ 32\<close>.
\<close>

definition unrefs_le_refs :: "ref_call list \<Rightarrow> bool" where
  "unrefs_le_refs cs = (\<forall>p \<in> set (prefixes cs). count_list p Unref \<le> count_list p Ref)"

definition count_fits :: "32 word \<Rightarrow> ref_call list \<Rightarrow> bool" where
  "count_fits c cs =
     (\<forall>p \<in> set (prefixes cs). unat c + count_list p Ref - count_list p Unref < 2 ^ 32)"

text \<open>A heap none of whose cells is string-like, for concrete runs.\<close>

definition no_string_cells :: "JSValue \<Rightarrow> bool" where
  "no_string_cells v = False"

text \<open>Whether a call on the environment is \<^verbatim>\<open>setInstanceData\<close>.\<close>

fun is_SetInstanceData :: "env_call \<Rightarrow> bool" where
  "is_SetInstanceData (SetInstanceData d f h) = True"
| "is_SetInstanceData _ = False"

section \<open>Properties\<close>

subsection \<open>Auxiliary facts\<close>

text \<open>The static assertion of line 92 holds of the table.\<close>

lemma error_messages_size: "length error_messages = nat last_status + 1"
  by (simp add: error_messages_def last_status_def napi_would_deadlock_def)

text \<open>A cleared weak slot is unset and reads as the empty value.\<close>

lemma NapiWeakValue_clear_NotSet:
  "m_tag (NapiWeakValue_clear w) = NotSet"
  "NapiWeakValue_get (NapiWeakValue_clear w) = JSValue_empty"
  by (simp_all add: NapiWeakValue_clear_def NapiWeakValue_get_def)

text \<open>Both calls change the count by one, modulo \<open>2 ^ 32\<close>.\<close>

lemma refCount_ref: "refCount (NapiRef_ref r) = refCount r + 1"
  by (simp add: NapiRef_ref_def Let_def)

lemma refCount_unref: "refCount (NapiRef_unref isString r) = refCount r - 1"
  by (simp add: NapiRef_unref_def Let_def)

lemma unat_refCount_ref:
  assumes "unat (refCount r) + 1 < 2 ^ 32"
  shows "unat (refCount (NapiRef_ref r)) = unat (refCount r) + 1"
  using assms by (simp add: refCount_ref unat_word_ariths)

lemma unat_refCount_unref:
  assumes "1 \<le> unat (refCount r)"
  shows "unat (refCount (NapiRef_unref isString r)) = unat (refCount r) - 1"
proof -
  from assms have "refCount r \<noteq> 0"
    by (auto simp: unat_eq_0)
  then show ?thesis
    by (simp add: refCount_unref unat_minus_one)
qed

lemma prefixes_Cons_mem: "p \<in> set (prefixes cs) \<Longrightarrow> c # p \<in> set (prefixes (c # cs))"
  by simp

text \<open>
  A run from any reference: while the count neither drops below 0 nor reaches
  \<open>2 ^ 32\<close> at any prefix, it ends at the start count plus the \<^verbatim>\<open>ref()\<close> calls minus the
  \<^verbatim>\<open>unref()\<close> calls.
\<close>

lemma NapiRef_run_refCount:
  assumes "\<forall>p \<in> set (prefixes cs). count_list p Unref \<le> unat (refCount r) + count_list p Ref"
    and "\<forall>p \<in> set (prefixes cs).
           unat (refCount r) + count_list p Ref - count_list p Unref < 2 ^ 32"
  shows "unat (refCount (NapiRef_run isString cs r)) =
           unat (refCount r) + count_list cs Ref - count_list cs Unref"
  using assms
proof (induction cs arbitrary: r)
  case Nil
  then show ?case by simp
next
  case (Cons c cs)
  note low = Cons.prems(1) [rule_format] and high = Cons.prems(2) [rule_format]
  show ?case
  proof (cases c)
    case Ref
    have "unat (refCount r) + 1 < 2 ^ 32"
      using high [of "[Ref]"] Ref by simp
    then have step: "unat (refCount (NapiRef_ref r)) = unat (refCount r) + 1"
      by (rule unat_refCount_ref)
    have "count_list p Unref \<le> unat (refCount (NapiRef_ref r)) + count_list p Ref"
      and "unat (refCount (NapiRef_ref r)) + count_list p Ref - count_list p Unref < 2 ^ 32"
      if "p \<in> set (prefixes cs)" for p
      using low [OF prefixes_Cons_mem [OF that, of c]]
            high [OF prefixes_Cons_mem [OF that, of c]] Ref
      by (simp_all add: step)
    then have "unat (refCount (NapiRef_run isString cs (NapiRef_ref r))) =
                 unat (refCount (NapiRef_ref r)) + count_list cs Ref - count_list cs Unref"
      by (intro Cons.IH) blast+
    then show ?thesis
      using Ref by (simp add: step)
  next
    case Unref
    have pos: "1 \<le> unat (refCount r)"
      using low [of "[Unref]"] Unref by simp
    then have step: "unat (refCount (NapiRef_unref isString r)) = unat (refCount r) - 1"
      by (rule unat_refCount_unref)
    have "count_list p Unref \<le> unat (refCount (NapiRef_unref isString r)) + count_list p Ref"
      and "unat (refCount (NapiRef_unref isString r)) + count_list p Ref - count_list p Unref
             < 2 ^ 32"
      if "p \<in> set (prefixes cs)" for p
      using low [OF prefixes_Cons_mem [OF that, of c]]
            high [OF prefixes_Cons_mem [OF that, of c]] Unref pos
      by (simp_all add: step)
    then have run: "unat (refCount (NapiRef_run isString cs (NapiRef_unref isString r))) =
                 unat (refCount (NapiRef_unref isString r)) + count_list cs Ref
                   - count_list cs Unref"
      by (intro Cons.IH) blast+
    have "Suc (count_list cs Unref) \<le> unat (refCount r) + count_list cs Ref"
      using low [OF prefixes_Cons_mem [of cs cs c]] Unref by simp
    with run show ?thesis
      using Unref pos by (simp add: step)
  qed
qed

text \<open>Without a finalizer and without \<^verbatim>\<open>setInstanceData\<close>, no call makes one appear.\<close>

lemma env_step_no_finalizer:
  assumes "m_instanceDataFinalizer e = nullptr" and "\<not> is_SetInstanceData c"
  shows "fst (env_step c e) = []"
    and "m_instanceDataFinalizer (snd (env_step c e)) = nullptr"
  using assms
  by (cases c; simp add: cleanup_def setLastError_def getLastErrorInfo_def Let_def)+

lemma env_run_no_finalizer:
  assumes "m_instanceDataFinalizer e = nullptr" and "\<forall>c \<in> set cs. \<not> is_SetInstanceData c"
  shows "fst (env_run cs e) = []"
  using assms
proof (induction cs arbitrary: e)
  case Nil
  then show ?case by simp
next
  case (Cons c cs)
  then have quiet: "fst (env_step c e) = []"
    and still: "m_instanceDataFinalizer (snd (env_step c e)) = nullptr"
    by (simp_all add: env_step_no_finalizer)
  from Cons.prems have "\<forall>c \<in> set cs. \<not> is_SetInstanceData c"
    by simp
  with still have "fst (env_run cs (snd (env_step c e))) = []"
    by (rule Cons.IH)
  with quiet show ?case
    by (simp add: split_beta Let_def)
qed

subsection \<open>Error reporting of the environment\<close>

text \<open>
  C7. For every status \<open>s\<close> and every state of the environment, \<^verbatim>\<open>setLastError(s)\<close>
  returns exactly \<open>s\<close>.
\<close>

theorem setLastError_returns_status:
  "fst (setLastError s e) = s"
  by (simp add: setLastError_def)

text \<open>
  C6. Reading the error record after \<^verbatim>\<open>setLastError(code)\<close>: for a code from
  \<^verbatim>\<open>napi_ok\<close> to \<^verbatim>\<open>napi_would_deadlock\<close>, \<^verbatim>\<open>getLastErrorInfo()\<close> returns a record with
  that code and with the table's entry for that code as message; for any other code the
  message is null.
\<close>

theorem getLastErrorInfo_after_setLastError:
  "(napi_ok \<le> code \<and> code \<le> napi_would_deadlock \<longrightarrow>
      error_code (fst (getLastErrorInfo (snd (setLastError code e)))) = code \<and>
      error_message (fst (getLastErrorInfo (snd (setLastError code e)))) =
        error_messages ! nat code)
   \<and> (\<not> (napi_ok \<le> code \<and> code \<le> napi_would_deadlock) \<longrightarrow>
      error_message (fst (getLastErrorInfo (snd (setLastError code e)))) = None)"
  by (simp add: setLastError_def getLastErrorInfo_def last_status_def napi_ok_def Let_def)

theorem getLastErrorInfo_after_setLastError_witness:
  "napi_ok \<le> 1 \<and> 1 \<le> napi_would_deadlock
   \<and> error_code (fst (getLastErrorInfo (snd (setLastError 1 (napi_env_ctor 0 ()))))) = 1
   \<and> error_message (fst (getLastErrorInfo (snd (setLastError 1 (napi_env_ctor 0 ())))))
       = Some ''Invalid argument''
   \<and> napi_ok \<le> 21 \<and> 21 \<le> napi_would_deadlock
   \<and> error_message (fst (getLastErrorInfo (snd (setLastError 21 (napi_env_ctor 0 ())))))
       = Some ''Main thread would deadlock''
   \<and> \<not> (napi_ok \<le> 22 \<and> 22 \<le> napi_would_deadlock)
   \<and> error_message (fst (getLastErrorInfo (snd (setLastError 22 (napi_env_ctor 0 ()))))) = None
   \<and> \<not> (napi_ok \<le> - 1 \<and> - 1 \<le> napi_would_deadlock)
   \<and> error_message (fst (getLastErrorInfo (snd (setLastError (- 1) (napi_env_ctor 0 ()))))) = None"
  using getLastErrorInfo_after_setLastError [of 1 "napi_env_ctor 0 ()"]
        getLastErrorInfo_after_setLastError [of 21 "napi_env_ctor 0 ()"]
        getLastErrorInfo_after_setLastError [of 22 "napi_env_ctor 0 ()"]
        getLastErrorInfo_after_setLastError [of "- 1" "napi_env_ctor 0 ()"]
  by (simp add: napi_ok_def napi_would_deadlock_def error_messages_def)

text \<open>
  C8. \<^verbatim>\<open>setLastError(s)\<close> writes the field \<^verbatim>\<open>error_code\<close> of the error record and
  nothing else: every other member of the environment and every other field of the
  record, the stored message among them, is as before. The message that
  \<^verbatim>\<open>getLastErrorInfo()\<close> returns is computed at the read from the table and the stored
  code alone, whatever message the record held: it is the table's entry for the stored
  code when that code lies from \<^verbatim>\<open>napi_ok\<close> to \<^verbatim>\<open>napi_would_deadlock\<close>, and null
  otherwise, and a second read gives the same message again.
\<close>

theorem setLastError_frame:
  "snd (setLastError s e) =
     e\<lparr> m_extendedErrorInfo := (m_extendedErrorInfo e)\<lparr> error_code := s \<rparr> \<rparr>
   \<and> m_globalObject (snd (setLastError s e)) = m_globalObject e
   \<and> m_napiModule (snd (setLastError s e)) = m_napiModule e
   \<and> m_instanceData (snd (setLastError s e)) = m_instanceData e
   \<and> m_instanceDataFinalizer (snd (setLastError s e)) = m_instanceDataFinalizer e
   \<and> m_instanceDataFinalizerHint (snd (setLastError s e)) = m_instanceDataFinalizerHint e
   \<and> error_message (m_extendedErrorInfo (snd (setLastError s e)))
       = error_message (m_extendedErrorInfo e)
   \<and> engine_reserved (m_extendedErrorInfo (snd (setLastError s e)))
       = engine_reserved (m_extendedErrorInfo e)
   \<and> engine_error_code (m_extendedErrorInfo (snd (setLastError s e)))
       = engine_error_code (m_extendedErrorInfo e)
   \<and> error_message (fst (getLastErrorInfo
         (e\<lparr> m_extendedErrorInfo := (m_extendedErrorInfo e)\<lparr> error_message := msg \<rparr> \<rparr>)))
       = error_message (fst (getLastErrorInfo e))
   \<and> error_message (fst (getLastErrorInfo e))
       = (if napi_ok \<le> error_code (m_extendedErrorInfo e)
             \<and> error_code (m_extendedErrorInfo e) \<le> napi_would_deadlock
          then error_messages ! nat (error_code (m_extendedErrorInfo e))
          else None)
   \<and> error_code (fst (getLastErrorInfo e)) = error_code (m_extendedErrorInfo e)
   \<and> error_message (fst (getLastErrorInfo (snd (getLastErrorInfo e))))
       = error_message (fst (getLastErrorInfo e))"
  by (simp add: setLastError_def getLastErrorInfo_def last_status_def napi_ok_def Let_def)

theorem setLastError_frame_witness:
  "error_message (m_extendedErrorInfo (snd (setLastError 9 (napi_env_ctor 0 ())))) = Some ''''
   \<and> error_message (fst (getLastErrorInfo (snd (setLastError 9 (napi_env_ctor 0 ())))))
       = Some ''Unknown failure''
   \<and> error_message (fst (getLastErrorInfo
        (snd (setLastError 1 (snd (getLastErrorInfo (snd (setLastError 9 (napi_env_ctor 0 ())))))))))
       = Some ''Invalid argument''
   \<and> error_message (fst (getLastErrorInfo
        (snd (setLastError 22 (snd (getLastErrorInfo (snd (setLastError 9 (napi_env_ctor 0 ())))))))))
       = None"
  using setLastError_frame [of 9 "napi_env_ctor 0 ()" None]
        setLastError_frame
          [of 1 "snd (getLastErrorInfo (snd (setLastError 9 (napi_env_ctor 0 ()))))" None]
        setLastError_frame
          [of 22 "snd (getLastErrorInfo (snd (setLastError 9 (napi_env_ctor 0 ()))))" None]
        setLastError_frame [of 0 "snd (setLastError 9 (napi_env_ctor 0 ()))" None]
        setLastError_frame
          [of 0 "snd (setLastError 1
                   (snd (getLastErrorInfo (snd (setLastError 9 (napi_env_ctor 0 ())))))) " None]
        setLastError_frame
          [of 0 "snd (setLastError 22
                   (snd (getLastErrorInfo (snd (setLastError 9 (napi_env_ctor 0 ())))))) " None]
  by (simp add: napi_env_ctor_def napi_ok_def napi_would_deadlock_def error_messages_def)

subsection \<open>Instance data of the environment\<close>

text \<open>
  C4, as the code has it. Each call of \<^verbatim>\<open>cleanup()\<close> invokes the instance-data
  finalizer exactly once, with the stored data and hint, when the stored finalizer pointer
  is not null, and invokes nothing when it is null; \<^verbatim>\<open>cleanup()\<close> leaves the environment
  as it was. On an environment on which \<^verbatim>\<open>setInstanceData\<close> was never called, no sequence
  of calls invokes a finalizer.
\<close>

theorem cleanup_invokes_stored_finalizer:
  "(m_instanceDataFinalizer e \<noteq> nullptr \<longrightarrow>
      cleanup e = ([Finalize (m_instanceDataFinalizer e) (m_instanceData e)
                      (m_instanceDataFinalizerHint e)], e))
   \<and> (m_instanceDataFinalizer e = nullptr \<longrightarrow> cleanup e = ([], e))
   \<and> ((\<forall>c \<in> set cs. \<not> is_SetInstanceData c) \<longrightarrow>
        fst (env_run cs (napi_env_ctor g m)) = [])"
proof -
  have "m_instanceDataFinalizer (napi_env_ctor g m) = nullptr"
    by (simp add: napi_env_ctor_def)
  then have "(\<forall>c \<in> set cs. \<not> is_SetInstanceData c) \<longrightarrow>
               fst (env_run cs (napi_env_ctor g m)) = []"
    using env_run_no_finalizer by blast
  then show ?thesis
    by (simp add: cleanup_def)
qed

theorem cleanup_invokes_stored_finalizer_witness:
  "m_instanceDataFinalizer (setInstanceData 16 32 48 (napi_env_ctor 1 ())) \<noteq> nullptr
   \<and> cleanup (setInstanceData 16 32 48 (napi_env_ctor 1 ()))
       = ([Finalize 32 16 48], setInstanceData 16 32 48 (napi_env_ctor 1 ()))
   \<and> m_instanceDataFinalizer (setInstanceData 16 0 48 (napi_env_ctor 1 ())) = nullptr
   \<and> cleanup (setInstanceData 16 0 48 (napi_env_ctor 1 ()))
       = ([], setInstanceData 16 0 48 (napi_env_ctor 1 ()))
   \<and> \<not> is_SetInstanceData Cleanup \<and> \<not> is_SetInstanceData (SetLastError 1)
   \<and> fst (env_run [Cleanup, SetLastError 1, Cleanup] (napi_env_ctor 1 ())) = []"
  using cleanup_invokes_stored_finalizer
          [of "setInstanceData 16 32 48 (napi_env_ctor 1 ())"
              "[Cleanup, SetLastError 1, Cleanup]" 1 "()"]
        cleanup_invokes_stored_finalizer
          [of "setInstanceData 16 0 48 (napi_env_ctor 1 ())" "[]" 1 "()"]
  by (simp add: setInstanceData_def napi_env_ctor_def nullptr_def)

text \<open>
  C4 as stated fails: with instance data and a finalizer set, two calls of
  \<^verbatim>\<open>cleanup()\<close> invoke the finalizer twice.
\<close>

theorem cleanup_twice_counterexample:
  "fst (env_run [SetInstanceData 16 32 48, Cleanup, Cleanup] (napi_env_ctor 1 ()))
     = [Finalize 32 16 48, Finalize 32 16 48]"
  by (simp add: setInstanceData_def napi_env_ctor_def nullptr_def cleanup_def)

subsection \<open>Handles\<close>

text \<open>
  C9. Decoding the handle that \<^verbatim>\<open>toNapi\<close> produces gives the value back:
  \<^verbatim>\<open>toJS(toNapi(v, g))\<close> is \<open>v\<close>, for a primitive as for a cell, with or without an open
  handle scope.
\<close>

theorem toJS_toNapi:
  "toJS (fst (toNapi v g)) = v"
  by (simp add: toJS_def toNapi_def JSValue_decode_def JSValue_encode_def Let_def)

text \<open>
  C5, as the code has it. A value that is a cell is appended to the current handle scope
  when one is open, at the end of that scope's sequence and with the enclosing scopes
  untouched; with no scope open nothing is appended; a value that is not a cell is never
  appended.
\<close>

theorem toNapi_appends_cells:
  "(isCell val \<and> m_currentNapiHandleScopeImpl g = Some scope \<longrightarrow>
      snd (toNapi val g) =
        g\<lparr> m_currentNapiHandleScopeImpl :=
             Some (NapiHandleScopeImpl (m_storage scope @ [val]) (m_parent scope)) \<rparr>)
   \<and> (m_currentNapiHandleScopeImpl g = None \<longrightarrow> snd (toNapi val g) = g)
   \<and> (\<not> isCell val \<longrightarrow> snd (toNapi val g) = g)"
  by (simp add: toNapi_def NapiHandleScopeImpl_append_def Let_def)

theorem toNapi_appends_cells_witness:
  "isCell (JSValue 4096)
   \<and> m_currentNapiHandleScopeImpl
       \<lparr> m_currentNapiHandleScopeImpl = Some (NapiHandleScopeImpl [JSValue 8192] None) \<rparr>
       = Some (NapiHandleScopeImpl [JSValue 8192] None)
   \<and> snd (toNapi (JSValue 4096)
        \<lparr> m_currentNapiHandleScopeImpl = Some (NapiHandleScopeImpl [JSValue 8192] None) \<rparr>)
       = \<lparr> m_currentNapiHandleScopeImpl =
             Some (NapiHandleScopeImpl [JSValue 8192, JSValue 4096] None) \<rparr>
   \<and> m_currentNapiHandleScopeImpl \<lparr> m_currentNapiHandleScopeImpl = None \<rparr> = None
   \<and> snd (toNapi (JSValue 4096) \<lparr> m_currentNapiHandleScopeImpl = None \<rparr>)
       = \<lparr> m_currentNapiHandleScopeImpl = None \<rparr>
   \<and> \<not> isCell (JSValue 10)
   \<and> snd (toNapi (JSValue 10)
        \<lparr> m_currentNapiHandleScopeImpl = Some (NapiHandleScopeImpl [JSValue 8192] None) \<rparr>)
       = \<lparr> m_currentNapiHandleScopeImpl = Some (NapiHandleScopeImpl [JSValue 8192] None) \<rparr>"
  using toNapi_appends_cells
          [of "JSValue 4096"
              "\<lparr> m_currentNapiHandleScopeImpl = Some (NapiHandleScopeImpl [JSValue 8192] None) \<rparr>"
              "NapiHandleScopeImpl [JSValue 8192] None"]
        toNapi_appends_cells
          [of "JSValue 4096" "\<lparr> m_currentNapiHandleScopeImpl = None \<rparr>"
              "NapiHandleScopeImpl [] None"]
        toNapi_appends_cells
          [of "JSValue 10"
              "\<lparr> m_currentNapiHandleScopeImpl = Some (NapiHandleScopeImpl [JSValue 8192] None) \<rparr>"
              "NapiHandleScopeImpl [JSValue 8192] None"]
  by (simp add: isCell_def NotCellMask_def)

text \<open>
  C5 as stated fails: the value \<^verbatim>\<open>undefined\<close> (encoded as 10) is not a cell, and
  \<^verbatim>\<open>toNapi\<close> leaves the open, empty scope empty.
\<close>

theorem toNapi_primitive_counterexample:
  "m_currentNapiHandleScopeImpl
     (snd (toNapi (JSValue 10)
        \<lparr> m_currentNapiHandleScopeImpl = Some (NapiHandleScopeImpl [] None) \<rparr>))
   = Some (NapiHandleScopeImpl [] None)
   \<and> m_currentNapiHandleScopeImpl
       (snd (toNapi (JSValue 10)
          \<lparr> m_currentNapiHandleScopeImpl = Some (NapiHandleScopeImpl [] None) \<rparr>))
     \<noteq> Some (NapiHandleScopeImpl [JSValue 10] None)"
  by (simp add: toNapi_def isCell_def NotCellMask_def Let_def)

subsection \<open>The weak slot and the reference\<close>

text \<open>
  C10. A weak slot whose tag is \<^verbatim>\<open>NotSet\<close> reads as the empty value \<^verbatim>\<open>JSValue()\<close>,
  whatever its payload holds; a freshly constructed slot is such a slot.
\<close>

theorem NapiWeakValue_get_NotSet:
  "(m_tag w = NotSet \<longrightarrow> NapiWeakValue_get w = JSValue_empty)
   \<and> m_tag NapiWeakValue_ctor = NotSet"
  by (simp add: NapiWeakValue_get_def NapiWeakValue_ctor_def)

theorem NapiWeakValue_get_NotSet_witness:
  "m_tag \<lparr> m_tag = NotSet,
           m_value = \<lparr> primitive = JSValue 7, cell = Weak 4096, string = Weak 8192 \<rparr> \<rparr> = NotSet
   \<and> NapiWeakValue_get
        \<lparr> m_tag = NotSet,
          m_value = \<lparr> primitive = JSValue 7, cell = Weak 4096, string = Weak 8192 \<rparr> \<rparr>
      = JSValue 0"
  using NapiWeakValue_get_NotSet
          [of "\<lparr> m_tag = NotSet,
                  m_value = \<lparr> primitive = JSValue 7, cell = Weak 4096, string = Weak 8192 \<rparr> \<rparr>"]
  by (simp add: JSValue_empty_def)

text \<open>
  C1. \<^verbatim>\<open>value()\<close> of a reference returns what the weak slot reads when the count is 0,
  and what the strong handle holds when the count is greater than 0.
\<close>

theorem NapiRef_value_by_refCount:
  "(refCount r = 0 \<longrightarrow> NapiRef_value r = NapiWeakValue_get (weakValueRef r))
   \<and> (refCount r > 0 \<longrightarrow> NapiRef_value r = Strong_get (strongRef r))"
  by (simp add: NapiRef_value_def)

theorem NapiRef_value_by_refCount_witness:
  "refCount ((NapiRef_ctor 1 2 0 3)
      \<lparr> weakValueRef :=
          \<lparr> m_tag = Primitive,
            m_value = \<lparr> primitive = JSValue 10, cell = Weak 0, string = Weak 0 \<rparr> \<rparr>,
        strongRef := Strong (Some (JSValue 4096)) \<rparr>) = 0
   \<and> NapiRef_value ((NapiRef_ctor 1 2 0 3)
      \<lparr> weakValueRef :=
          \<lparr> m_tag = Primitive,
            m_value = \<lparr> primitive = JSValue 10, cell = Weak 0, string = Weak 0 \<rparr> \<rparr>,
        strongRef := Strong (Some (JSValue 4096)) \<rparr>) = JSValue 10
   \<and> refCount ((NapiRef_ctor 1 2 2 3)
      \<lparr> weakValueRef :=
          \<lparr> m_tag = Primitive,
            m_value = \<lparr> primitive = JSValue 10, cell = Weak 0, string = Weak 0 \<rparr> \<rparr>,
        strongRef := Strong (Some (JSValue 4096)) \<rparr>) > 0
   \<and> NapiRef_value ((NapiRef_ctor 1 2 2 3)
      \<lparr> weakValueRef :=
          \<lparr> m_tag = Primitive,
            m_value = \<lparr> primitive = JSValue 10, cell = Weak 0, string = Weak 0 \<rparr> \<rparr>,
        strongRef := Strong (Some (JSValue 4096)) \<rparr>) = JSValue 4096"
  using NapiRef_value_by_refCount
          [of "(NapiRef_ctor 1 2 0 3)
                \<lparr> weakValueRef :=
                    \<lparr> m_tag = Primitive,
                      m_value = \<lparr> primitive = JSValue 10, cell = Weak 0, string = Weak 0 \<rparr> \<rparr>,
                  strongRef := Strong (Some (JSValue 4096)) \<rparr>"]
        NapiRef_value_by_refCount
          [of "(NapiRef_ctor 1 2 2 3)
                \<lparr> weakValueRef :=
                    \<lparr> m_tag = Primitive,
                      m_value = \<lparr> primitive = JSValue 10, cell = Weak 0, string = Weak 0 \<rparr> \<rparr>,
                  strongRef := Strong (Some (JSValue 4096)) \<rparr>"]
  by (simp add: NapiRef_ctor_def NapiWeakValue_get_def Strong_get_def)

text \<open>
  C3. The destructor of a reference clears the strong handle first and the weak slot
  second, whatever the count: when the weak slot is cleared the strong handle is already
  empty, and the weak slot is untouched until then.
\<close>

theorem NapiRef_dtor_order:
  "map fst (NapiRef_dtor r) = [StrongRefClear, WeakValueRefClear]
   \<and> strongRef (snd (NapiRef_dtor r ! 0)) = Strong None
   \<and> weakValueRef (snd (NapiRef_dtor r ! 0)) = weakValueRef r
   \<and> strongRef (snd (NapiRef_dtor r ! 1)) = Strong None
   \<and> m_tag (weakValueRef (snd (NapiRef_dtor r ! 1))) = NotSet"
  by (simp add: NapiRef_dtor_def Let_def Strong_clear_def NapiWeakValue_clear_def)

text \<open>
  C2, as the count's type allows. For a reference created with count \<open>c\<close>, after a
  sequence of \<^verbatim>\<open>ref()\<close> and \<^verbatim>\<open>unref()\<close> calls in which the \<^verbatim>\<open>unref()\<close> calls never
  outnumber the \<^verbatim>\<open>ref()\<close> calls at any prefix, and in which the count stays below
  \<open>2 ^ 32\<close> at every prefix, the count is \<open>c\<close> plus the number of \<^verbatim>\<open>ref()\<close> calls minus
  the number of \<^verbatim>\<open>unref()\<close> calls.
\<close>

theorem refCount_after_calls:
  assumes "unrefs_le_refs cs" and "count_fits c cs"
  shows "unat (refCount (NapiRef_run isString cs (NapiRef_ctor e g c cb0))) =
           unat c + count_list cs Ref - count_list cs Unref"
proof -
  have start: "refCount (NapiRef_ctor e g c cb0) = c"
    by (simp add: NapiRef_ctor_def)
  have "\<forall>p \<in> set (prefixes cs).
          count_list p Unref \<le> unat (refCount (NapiRef_ctor e g c cb0)) + count_list p Ref"
    using assms(1) by (auto simp: unrefs_le_refs_def start intro: trans_le_add2)
  moreover have "\<forall>p \<in> set (prefixes cs).
          unat (refCount (NapiRef_ctor e g c cb0)) + count_list p Ref - count_list p Unref
            < 2 ^ 32"
    using assms(2) by (simp add: count_fits_def start)
  ultimately show ?thesis
    using NapiRef_run_refCount [of cs "NapiRef_ctor e g c cb0" isString] by (simp add: start)
qed

theorem refCount_after_calls_witness:
  "unrefs_le_refs [Ref, Ref, Unref, Ref, Unref, Unref]
   \<and> count_fits 3 [Ref, Ref, Unref, Ref, Unref, Unref]
   \<and> unat (refCount (NapiRef_run no_string_cells [Ref, Ref, Unref, Ref, Unref, Unref]
                       (NapiRef_ctor 1 2 3 4))) = 3
   \<and> unrefs_le_refs [Ref, Ref, Unref]
   \<and> count_fits 0 [Ref, Ref, Unref]
   \<and> unat (refCount (NapiRef_run no_string_cells [Ref, Ref, Unref] (NapiRef_ctor 1 2 0 4))) = 1"
proof -
  have a: "unrefs_le_refs [Ref, Ref, Unref, Ref, Unref, Unref]"
    and b: "count_fits 3 [Ref, Ref, Unref, Ref, Unref, Unref]"
    and c: "unrefs_le_refs [Ref, Ref, Unref]"
    and d: "count_fits 0 [Ref, Ref, Unref]"
    by (simp_all add: unrefs_le_refs_def count_fits_def)
  show ?thesis
    using a b c d
          refCount_after_calls [OF a b, of no_string_cells 1 2 4]
          refCount_after_calls [OF c d, of no_string_cells 1 2 4]
    by simp
qed

text \<open>
  C2 as stated fails where the 32-bit count wraps: a reference created with count
  \<open>2 ^ 32 - 1\<close> has count 0 after one \<^verbatim>\<open>ref()\<close>, not \<open>2 ^ 32\<close>.
\<close>

theorem refCount_wraps_counterexample:
  "unrefs_le_refs [Ref]
   \<and> unat (refCount (NapiRef_run no_string_cells [Ref] (NapiRef_ctor 1 2 0xFFFFFFFF 4))) = 0
   \<and> unat (0xFFFFFFFF :: 32 word) + count_list [Ref] Ref - count_list [Ref] Unref = 4294967296
   \<and> unat (refCount (NapiRef_run no_string_cells [Ref] (NapiRef_ctor 1 2 0xFFFFFFFF 4)))
       \<noteq> unat (0xFFFFFFFF :: 32 word) + count_list [Ref] Ref - count_list [Ref] Unref"
  by (simp add: unrefs_le_refs_def NapiRef_ctor_def NapiRef_ref_def Let_def)

end
